theory Spec2Isabelle
  imports Main "HOL-Library.Word" "HOL-Library.Multiset" "HOL-Library.Product_Lexorder"
begin

section \<open>The crash-recovery shim\<close>

text \<open>
  \<^verbatim>\<open>strcmp\<close> of the C library on two C strings, each given by its characters before the
  terminating NUL. The characters are compared as unsigned bytes; only the sign of the
  result is fixed by the C standard, so the model returns \<open>-1\<close>, \<open>0\<close> or \<open>1\<close>.
\<close>

fun strcmp :: "string \<Rightarrow> string \<Rightarrow> int" where
  "strcmp [] [] = 0"
| "strcmp [] (y # ys) = - 1"
| "strcmp (x # xs) [] = 1"
| "strcmp (x # xs) (y # ys) =
     (if x = y then strcmp xs ys
      else if (of_char x :: nat) < of_char y then - 1 else 1)"

text \<open>
  What a call of \<^verbatim>\<open>RunSafely\<close> can end in: it returns a \<^verbatim>\<open>bool\<close> and leaves a program
  state behind, or a fatal fault of the closure reaches the process.
\<close>

datatype 's run_result = Returned bool 's | Faulted

text \<open>
  \<^verbatim>\<open>template <typename Fn> bool RunSafely(llvm::CrashRecoveryContext &CRC, Fn &&fn)\<close>.
  The closure \<open>fn\<close> is a transformer of the program state \<open>'s\<close> that gives \<open>None\<close> when
  it raises a fatal fault. The environment is the function \<open>getenv\<close> (\<open>None\<close> is the null
  pointer of an unset variable). \<^verbatim>\<open>CRC.RunSafely\<close> belongs to LLVM and is the parameter
  \<open>CRC_RunSafely\<close>: it always returns, with its \<^verbatim>\<open>bool\<close> and the state it leaves.
\<close>

definition RunSafely ::
  "(string \<Rightarrow> string option) \<Rightarrow> (('s \<Rightarrow> 's option) \<Rightarrow> 's \<Rightarrow> bool \<times> 's) \<Rightarrow>
   ('s \<Rightarrow> 's option) \<Rightarrow> 's \<Rightarrow> 's run_result" where
  "RunSafely getenv CRC_RunSafely fn s =
     (case getenv ''CCLS_CRASH_RECOVERY'' of
        Some env \<Rightarrow>
          if strcmp env ''0'' = 0 then
            (case fn s of
               Some s' \<Rightarrow> Returned True s'
             | None \<Rightarrow> Faulted)
          else (case CRC_RunSafely fn s of (r, s') \<Rightarrow> Returned r s')
      | None \<Rightarrow> (case CRC_RunSafely fn s of (r, s') \<Rightarrow> Returned r s'))"

section \<open>Typed handles\<close>

type_synonym RawId = "32 word"

text \<open>The entity kinds that tag a handle; \<open>void\<close> is the kind-erased tag.\<close>

typedecl IndexFile
typedecl IndexType
typedecl IndexFunc
typedecl IndexVar
typedecl QueryFile
typedecl void

text \<open>
  \<^verbatim>\<open>template <typename T> struct Id { RawId id; ... }\<close>: the tag \<open>'k\<close> is a phantom
  type, the only field is the raw value.
\<close>

datatype 'k Id = Id (Id_id: RawId)

text \<open>\<^verbatim>\<open>Id() : id(-1) {}\<close>: the \<^verbatim>\<open>int\<close> \<open>-1\<close> converted to \<^verbatim>\<open>uint32_t\<close>.\<close>

definition Id_default :: "'k Id" where
  "Id_default = Id (word_of_int (- 1))"

text \<open>
  The two converting constructors \<^verbatim>\<open>Id(Id<U> o) : id(o.id) {}\<close>: the implicit one, which
  C++ enables when the target is \<^verbatim>\<open>Id<void>\<close> (or the same kind), and the explicit one
  for every other pair of kinds.
\<close>

definition Id_implicit :: "'u Id \<Rightarrow> void Id" where
  "Id_implicit o' = Id (Id_id o')"

definition Id_explicit :: "'u Id \<Rightarrow> 't Id" where
  "Id_explicit o' = Id (Id_id o')"

text \<open>\<^verbatim>\<open>explicit operator RawId() const { return id; }\<close>\<close>

definition Id_RawId :: "'k Id \<Rightarrow> RawId" where
  "Id_RawId i = Id_id i"

text \<open>\<^verbatim>\<open>bool Valid() const { return id != RawId(-1); }\<close>\<close>

definition Id_Valid :: "'k Id \<Rightarrow> bool" where
  "Id_Valid i = (Id_id i \<noteq> word_of_int (- 1))"

definition Id_eq :: "'k Id \<Rightarrow> 'k Id \<Rightarrow> bool" where
  "Id_eq a b = (Id_id a = Id_id b)"

definition Id_ne :: "'k Id \<Rightarrow> 'k Id \<Rightarrow> bool" where
  "Id_ne a b = (Id_id a \<noteq> Id_id b)"

definition Id_less :: "'k Id \<Rightarrow> 'k Id \<Rightarrow> bool" where
  "Id_less a b = (Id_id a < Id_id b)"

text \<open>
  \<^verbatim>\<open>std::hash<Id<T>>\<close>: \<^verbatim>\<open>hash<RawId>()(k.id)\<close>. The hash of the raw integer belongs to
  the standard library and is the parameter \<open>hash_RawId\<close>.
\<close>

definition Id_hash :: "(RawId \<Rightarrow> 64 word) \<Rightarrow> 'k Id \<Rightarrow> 64 word" where
  "Id_hash hash_RawId k = hash_RawId (Id_id k)"

section \<open>Symbol indices and references\<close>

text \<open>
  Modelled from the spec: \<^verbatim>\<open>SymbolKind\<close> is declared in \<^verbatim>\<open>symbol.h\<close>, which is not among
  the sources. The spec gives its members as Invalid, File, Type, Func, Var; a scoped
  enumeration compares by the underlying value, taken here as the position in that list.
\<close>

datatype SymbolKind =
  SymbolKind_Invalid | SymbolKind_File | SymbolKind_Type | SymbolKind_Func | SymbolKind_Var

fun SymbolKind_value :: "SymbolKind \<Rightarrow> nat" where
  "SymbolKind_value SymbolKind_Invalid = 0"
| "SymbolKind_value SymbolKind_File = 1"
| "SymbolKind_value SymbolKind_Type = 2"
| "SymbolKind_value SymbolKind_Func = 3"
| "SymbolKind_value SymbolKind_Var = 4"

definition SymbolKind_less :: "SymbolKind \<Rightarrow> SymbolKind \<Rightarrow> bool" where
  "SymbolKind_less a b = (SymbolKind_value a < SymbolKind_value b)"

text \<open>
  Modelled from the spec: \<^verbatim>\<open>Role\<close> is declared in \<^verbatim>\<open>symbol.h\<close>, which is not among the
  sources. The spec describes it as a bitset of nine flags; it is a 16-bit word whose
  comparison is the one of the unsigned value.
\<close>

type_synonym Role = "16 word"

record SymbolIdx =
  SymbolIdx_id :: "void Id"
  SymbolIdx_kind :: SymbolKind

definition SymbolIdx_eq :: "SymbolIdx \<Rightarrow> SymbolIdx \<Rightarrow> bool" where
  "SymbolIdx_eq a b =
     (Id_eq (SymbolIdx_id a) (SymbolIdx_id b) \<and> SymbolIdx_kind a = SymbolIdx_kind b)"

definition SymbolIdx_less :: "SymbolIdx \<Rightarrow> SymbolIdx \<Rightarrow> bool" where
  "SymbolIdx_less a b =
     (if \<not> Id_eq (SymbolIdx_id a) (SymbolIdx_id b)
      then Id_less (SymbolIdx_id a) (SymbolIdx_id b)
      else SymbolKind_less (SymbolIdx_kind a) (SymbolIdx_kind b))"

text \<open>
  \<^verbatim>\<open>struct Reference { Range range; Id<void> id; SymbolKind kind; Role role; ... }\<close>.
  \<^verbatim>\<open>Range\<close> is declared in \<^verbatim>\<open>position.h\<close>, which is not among the sources: it is the
  type parameter \<open>'r\<close>, whose \<^verbatim>\<open>operator==\<close> is equality and whose \<^verbatim>\<open>operator<\<close> is the
  linear order of \<open>'r\<close>.
\<close>

record 'r Reference =
  Reference_range :: 'r
  Reference_id :: "void Id"
  Reference_kind :: SymbolKind
  Reference_role :: Role

text \<open>\<^verbatim>\<open>operator SymbolIdx() const { return {id, kind}; }\<close>\<close>

definition Reference_SymbolIdx :: "('r, 'z) Reference_scheme \<Rightarrow> SymbolIdx" where
  "Reference_SymbolIdx r = \<lparr>SymbolIdx_id = Reference_id r, SymbolIdx_kind = Reference_kind r\<rparr>"

definition ToTuple :: "('r, 'z) Reference_scheme \<Rightarrow> 'r \<times> void Id \<times> SymbolKind \<times> Role" where
  "ToTuple r = (Reference_range r, Reference_id r, Reference_kind r, Reference_role r)"

text \<open>
  The comparison operators of \<^verbatim>\<open>std::tuple<Range, Id<void>, SymbolKind, Role>\<close>, as the
  standard library defines them: \<^verbatim>\<open>==\<close> is the conjunction of the members' \<^verbatim>\<open>==\<close>, and
  \<^verbatim>\<open><\<close> walks the members from the left using only their \<^verbatim>\<open><\<close>: the first member that
  is smaller on one side decides.
\<close>

fun tuple_eq ::
  "('r \<times> void Id \<times> SymbolKind \<times> Role) \<Rightarrow> ('r \<times> void Id \<times> SymbolKind \<times> Role) \<Rightarrow> bool" where
  "tuple_eq (r1, i1, k1, l1) (r2, i2, k2, l2) = (r1 = r2 \<and> Id_eq i1 i2 \<and> k1 = k2 \<and> l1 = l2)"

fun tuple_less ::
  "('r::linorder \<times> void Id \<times> SymbolKind \<times> Role) \<Rightarrow> ('r \<times> void Id \<times> SymbolKind \<times> Role) \<Rightarrow> bool"
  where
  "tuple_less (r1, i1, k1, l1) (r2, i2, k2, l2) =
     (if r1 < r2 then True
      else if r2 < r1 then False
      else if Id_less i1 i2 then True
      else if Id_less i2 i1 then False
      else if SymbolKind_less k1 k2 then True
      else if SymbolKind_less k2 k1 then False
      else l1 < l2)"

definition Reference_eq :: "('r, 'z) Reference_scheme \<Rightarrow> ('r, 'z) Reference_scheme \<Rightarrow> bool" where
  "Reference_eq a b = tuple_eq (ToTuple a) (ToTuple b)"

definition Reference_less ::
  "('r::linorder, 'z) Reference_scheme \<Rightarrow> ('r, 'z) Reference_scheme \<Rightarrow> bool" where
  "Reference_less a b = tuple_less (ToTuple a) (ToTuple b)"

text \<open>
  \<^verbatim>\<open>struct SymbolRef : Reference\<close> adds no field. \<^verbatim>\<open>struct Use : Reference\<close> adds the
  file; it declares no comparison of its own, so a \<^verbatim>\<open>Use\<close> is compared by
  \<open>Reference_eq\<close> and \<open>Reference_less\<close>.
\<close>

type_synonym 'r SymbolRef = "'r Reference"

record 'r Use = "'r Reference" +
  Use_file :: "QueryFile Id"

section \<open>Entity definitions\<close>

text \<open>
  Modelled from the spec: \<^verbatim>\<open>lsSymbolKind\<close> is declared in \<^verbatim>\<open>lsp.h\<close>, which is not among
  the sources. The spec names the members below and leaves the list open; the source adds
  \<^verbatim>\<open>Unknown\<close>, the default of every definition. \<open>lsSymbolKind_other\<close> stands for the
  members the spec does not name.
\<close>

datatype lsSymbolKind =
  lsSymbolKind_Unknown | lsSymbolKind_Class | lsSymbolKind_Struct | lsSymbolKind_Method
| lsSymbolKind_Constructor | lsSymbolKind_Function | lsSymbolKind_Field
| lsSymbolKind_Variable | lsSymbolKind_Parameter | lsSymbolKind_Namespace
| lsSymbolKind_Enum | lsSymbolKind_EnumMember | lsSymbolKind_TypeAlias
| lsSymbolKind_Macro | lsSymbolKind_other nat

text \<open>
  Modelled from the spec: \<^verbatim>\<open>StorageClass\<close> is declared in a header that is not among the
  sources. The spec gives its members.
\<close>

datatype StorageClass =
  StorageClass_Invalid | StorageClass_None | StorageClass_Extern | StorageClass_Static
| StorageClass_PrivateExtern | StorageClass_Auto | StorageClass_Register

text \<open>
  Modelled from the spec: \<^verbatim>\<open>NtString\<close> is declared in \<^verbatim>\<open>nt_string.h\<close>, which is not among
  the sources. The spec describes it as a nul-terminated interned string; it is compared
  by its characters.
\<close>

type_synonym NtString = string

text \<open>
  Modelled from the spec: \<^verbatim>\<open>Maybe<T>\<close> is declared in \<^verbatim>\<open>maybe.h\<close>, which is not among the
  sources. The spec treats a \<^verbatim>\<open>Maybe\<close> field as a value that is either empty or set; two
  of them are equal when both are empty, or both are set to values that \<^verbatim>\<open>T\<close>'s
  \<^verbatim>\<open>operator==\<close> accepts.
\<close>

fun Maybe_eq :: "('a \<Rightarrow> 'a \<Rightarrow> bool) \<Rightarrow> 'a option \<Rightarrow> 'a option \<Rightarrow> bool" where
  "Maybe_eq eq None None = True"
| "Maybe_eq eq (Some a) (Some b) = eq a b"
| "Maybe_eq eq a b = False"

text \<open>
  \<^verbatim>\<open>operator==\<close> of \<^verbatim>\<open>std::vector<T>\<close>: the same size and \<^verbatim>\<open>T\<close>'s \<^verbatim>\<open>operator==\<close> at every
  position.
\<close>

fun vector_eq :: "('a \<Rightarrow> 'a \<Rightarrow> bool) \<Rightarrow> 'a list \<Rightarrow> 'a list \<Rightarrow> bool" where
  "vector_eq eq [] [] = True"
| "vector_eq eq (x # xs) (y # ys) = (eq x y \<and> vector_eq eq xs ys)"
| "vector_eq eq xs ys = False"

type_synonym int16_t = "16 word"
type_synonym size_t = "64 word"

text \<open>
  The members that \<^verbatim>\<open>TypeDef<F>\<close>, \<^verbatim>\<open>FuncDef<F>\<close> and \<^verbatim>\<open>VarDef<F>\<close> all declare. \<^verbatim>\<open>NameMixin<D>\<close>
  reads four of them through \<^verbatim>\<open>static_cast<const D*>(this)\<close>; here it is a function on
  every extension of this record. The family \<^verbatim>\<open>F\<close> is \<^verbatim>\<open>IndexFamily\<close>, the one family
  the sources declare.
\<close>

record 'r EntityDef =
  detailed_name :: string
  hover :: NtString
  comments :: NtString
  spell :: "'r Use option"
  extent :: "'r Use option"
  "file" :: "IndexFile Id"
  qual_name_offset :: int16_t
  short_name_offset :: int16_t
  short_name_size :: int16_t
  kind :: lsSymbolKind

record 'r TypeDef = "'r EntityDef" +
  TypeDef_bases :: "IndexType Id list"
  types :: "IndexType Id list"
  funcs :: "IndexFunc Id list"
  TypeDef_vars :: "IndexVar Id list"
  alias_of :: "IndexType Id option"

record 'r FuncDef = "'r EntityDef" +
  FuncDef_bases :: "IndexFunc Id list"
  FuncDef_vars :: "IndexVar Id list"
  callees :: "'r SymbolRef list"
  declaring_type :: "IndexType Id option"
  FuncDef_storage :: StorageClass

record 'r VarDef = "'r EntityDef" +
  VarDef_type :: "IndexType Id option"
  VarDef_storage :: StorageClass

subsection \<open>Names\<close>

text \<open>
  A \<^verbatim>\<open>std::string_view\<close> into the buffer of \<^verbatim>\<open>detailed_name\<close>: \<open>sv_data\<close> is the position
  of its first character, counted from \<^verbatim>\<open>detailed_name.c_str()\<close>, and \<open>sv_size\<close> its
  length, a \<^verbatim>\<open>size_t\<close> (64 bits).
\<close>

record string_view =
  sv_data :: int
  sv_size :: size_t

text \<open>
  \<^verbatim>\<open>std::string_view(const char *s, size_type count)\<close> at \<^verbatim>\<open>c_str() + off\<close>. The offsets are
  \<^verbatim>\<open>int16_t\<close>; C++ promotes them to \<^verbatim>\<open>int\<close> before it adds and subtracts, so the
  arithmetic is the one of the integers (three 16-bit values cannot leave the range of
  a 32-bit \<^verbatim>\<open>int\<close>). The count is then converted to \<^verbatim>\<open>size_t\<close>, which wraps a negative
  value around.
\<close>

definition string_view_at :: "int \<Rightarrow> int \<Rightarrow> string_view" where
  "string_view_at off len = \<lparr>sv_data = off, sv_size = word_of_int len\<rparr>"

definition Name :: "('r, 'z) EntityDef_scheme \<Rightarrow> bool \<Rightarrow> string_view" where
  "Name self qualified =
     (if qualified
      then string_view_at (sint (qual_name_offset self))
             (sint (short_name_offset self) - sint (qual_name_offset self) +
              sint (short_name_size self))
      else string_view_at (sint (short_name_offset self)) (sint (short_name_size self)))"

text \<open>
  \<^verbatim>\<open>std::string::c_str()\<close>: the characters of the string followed by the terminating NUL.
\<close>

definition c_str :: "string \<Rightarrow> string" where
  "c_str s = s @ [CHR 0x00]"

datatype error = OutOfBounds

text \<open>
  The characters a view denotes in the buffer it points into. A view that starts before
  the buffer or ends after it denotes no characters of the buffer: reading it is
  undefined behaviour, the error \<open>OutOfBounds\<close> here.
\<close>

definition sv_chars :: "string \<Rightarrow> string_view \<Rightarrow> error + string" where
  "sv_chars buf v =
     (if 0 \<le> sv_data v \<and> sv_data v + int (unat (sv_size v)) \<le> int (length buf)
      then Inr (take (unat (sv_size v)) (drop (nat (sv_data v)) buf))
      else Inl OutOfBounds)"

text \<open>The characters of \<^verbatim>\<open>Name(qualified)\<close>, read from the buffer of \<^verbatim>\<open>detailed_name\<close>.\<close>

definition Name_chars :: "('r, 'z) EntityDef_scheme \<Rightarrow> bool \<Rightarrow> error + string" where
  "Name_chars self qualified = sv_chars (c_str (detailed_name self)) (Name self qualified)"

text \<open>
  The invariant on the name offsets: \<open>0 \<le> qual_name_offset \<le> short_name_offset\<close> and
  \<open>short_name_offset + short_name_size \<le> length detailed_name\<close>.
\<close>

definition name_offsets_ok :: "('r, 'z) EntityDef_scheme \<Rightarrow> bool" where
  "name_offsets_ok self =
     (0 \<le> sint (qual_name_offset self) \<and>
      sint (qual_name_offset self) \<le> sint (short_name_offset self) \<and>
      sint (short_name_offset self) + sint (short_name_size self)
        \<le> int (length (detailed_name self)))"

subsection \<open>Variables\<close>

text \<open>\<^verbatim>\<open>bool is_local() const { return kind == lsSymbolKind::Variable; }\<close>\<close>

definition is_local :: "('r, 'z) VarDef_scheme \<Rightarrow> bool" where
  "is_local v = (kind v = lsSymbolKind_Variable)"

subsection \<open>Equality of definitions\<close>

definition TypeDef_eq :: "'r TypeDef \<Rightarrow> 'r TypeDef \<Rightarrow> bool" where
  "TypeDef_eq a b =
     (detailed_name a = detailed_name b \<and> Maybe_eq Reference_eq (spell a) (spell b) \<and>
      Maybe_eq Reference_eq (extent a) (extent b) \<and>
      Maybe_eq Id_eq (alias_of a) (alias_of b) \<and>
      vector_eq Id_eq (TypeDef_bases a) (TypeDef_bases b) \<and>
      vector_eq Id_eq (types a) (types b) \<and> vector_eq Id_eq (funcs a) (funcs b) \<and>
      vector_eq Id_eq (TypeDef_vars a) (TypeDef_vars b) \<and>
      kind a = kind b \<and> hover a = hover b \<and> comments a = comments b)"

definition FuncDef_eq :: "'r FuncDef \<Rightarrow> 'r FuncDef \<Rightarrow> bool" where
  "FuncDef_eq a b =
     (detailed_name a = detailed_name b \<and> Maybe_eq Reference_eq (spell a) (spell b) \<and>
      Maybe_eq Reference_eq (extent a) (extent b) \<and>
      Maybe_eq Id_eq (declaring_type a) (declaring_type b) \<and>
      vector_eq Id_eq (FuncDef_bases a) (FuncDef_bases b) \<and>
      vector_eq Id_eq (FuncDef_vars a) (FuncDef_vars b) \<and>
      vector_eq Reference_eq (callees a) (callees b) \<and>
      kind a = kind b \<and> FuncDef_storage a = FuncDef_storage b \<and> hover a = hover b \<and>
      comments a = comments b)"

definition VarDef_eq :: "'r VarDef \<Rightarrow> 'r VarDef \<Rightarrow> bool" where
  "VarDef_eq a b =
     (detailed_name a = detailed_name b \<and> Maybe_eq Reference_eq (spell a) (spell b) \<and>
      Maybe_eq Reference_eq (extent a) (extent b) \<and>
      Maybe_eq Id_eq (VarDef_type a) (VarDef_type b) \<and> kind a = kind b \<and>
      VarDef_storage a = VarDef_storage b \<and> hover a = hover b \<and> comments a = comments b)"

section \<open>Properties of the crash-recovery shim\<close>

lemma strcmp_eq_0_iff: "strcmp a b = 0 \<longleftrightarrow> a = b"
  by (induction a b rule: strcmp.induct) auto

lemma RunSafely_disabled:
  assumes "getenv ''CCLS_CRASH_RECOVERY'' = Some ''0''"
  shows "RunSafely getenv crc fn s = (case fn s of Some s' \<Rightarrow> Returned True s' | None \<Rightarrow> Faulted)"
  using assms by (simp add: RunSafely_def)

lemma RunSafely_armed:
  assumes "getenv ''CCLS_CRASH_RECOVERY'' \<noteq> Some ''0''"
  shows "RunSafely getenv crc fn s = Returned (fst (crc fn s)) (snd (crc fn s))"
proof (cases "getenv ''CCLS_CRASH_RECOVERY''")
  case None
  then show ?thesis by (simp add: RunSafely_def split: prod.split)
next
  case (Some env)
  with assms have "env \<noteq> ''0''" by simp
  then have "strcmp env ''0'' \<noteq> 0" by (simp only: strcmp_eq_0_iff not_False_eq_True)
  with Some show ?thesis by (simp add: RunSafely_def split: prod.split)
qed

text \<open>
  C1. \<^verbatim>\<open>RunSafely\<close> consults the environment variable \<^verbatim>\<open>CCLS_CRASH_RECOVERY\<close>. When it is
  set to the string \<open>0\<close>, the closure is invoked directly, whatever the crash-recovery
  context would do, and \<^verbatim>\<open>RunSafely\<close> returns true once the closure has returned. For
  every other value, and when the variable is unset, the closure runs under
  \<^verbatim>\<open>CRC.RunSafely\<close> and \<^verbatim>\<open>RunSafely\<close> returns that call's result.
\<close>

theorem RunSafely_kill_switch:
  "(getenv ''CCLS_CRASH_RECOVERY'' = Some ''0'' \<longrightarrow>
      RunSafely getenv crc fn s =
        (case fn s of Some s' \<Rightarrow> Returned True s' | None \<Rightarrow> Faulted) \<and>
      RunSafely getenv crc fn s = RunSafely getenv crc' fn s) \<and>
   (getenv ''CCLS_CRASH_RECOVERY'' = Some ''0'' \<and> fn s = Some s1 \<longrightarrow>
      RunSafely getenv crc fn s = Returned True s1) \<and>
   (getenv ''CCLS_CRASH_RECOVERY'' \<noteq> Some ''0'' \<longrightarrow>
      RunSafely getenv crc fn s = Returned (fst (crc fn s)) (snd (crc fn s)))"
  using RunSafely_disabled [of getenv crc fn s] RunSafely_disabled [of getenv crc' fn s]
    RunSafely_armed [of getenv crc fn s]
  by auto

theorem RunSafely_kill_switch_witness:
  "RunSafely (\<lambda>n. if n = ''CCLS_CRASH_RECOVERY'' then Some ''0'' else None)
     (\<lambda>f s. (False, s)) (\<lambda>s. Some (Suc s)) (0::nat) = Returned True 1 \<and>
   RunSafely (\<lambda>n. if n = ''CCLS_CRASH_RECOVERY'' then Some ''1'' else None)
     (\<lambda>f s. (False, s)) (\<lambda>s. Some (Suc s)) (0::nat) = Returned False 0 \<and>
   RunSafely (\<lambda>n. None)
     (\<lambda>f s. (case f s of Some s' \<Rightarrow> (True, s') | None \<Rightarrow> (False, s))) (\<lambda>s. Some (Suc s)) (0::nat)
       = Returned True 1"
  using
    RunSafely_kill_switch [of "\<lambda>n. if n = ''CCLS_CRASH_RECOVERY'' then Some ''0'' else None"
      "\<lambda>f s. (False, s)" "\<lambda>s. Some (Suc s)" "0::nat" "\<lambda>f s. (False, s)" "1::nat"]
    RunSafely_kill_switch [of "\<lambda>n. if n = ''CCLS_CRASH_RECOVERY'' then Some ''1'' else None"
      "\<lambda>f s. (False, s)" "\<lambda>s. Some (Suc s)" "0::nat" "\<lambda>f s. (False, s)" "1::nat"]
    RunSafely_kill_switch [of "\<lambda>n. None"
      "\<lambda>f s. (case f s of Some s' \<Rightarrow> (True, s') | None \<Rightarrow> (False, s))"
      "\<lambda>s. Some (Suc s)" "0::nat" "\<lambda>f s. (False, s)" "1::nat"]
  by simp

section \<open>Properties of the handles\<close>

lemma unat_all_ones_32: "unat (word_of_int (- 1) :: 32 word) = 2 ^ 32 - 1"
  by (simp add: unsigned_minus_1_eq_mask mask_eq_exp_minus_1)

text \<open>
  C4. An \<^verbatim>\<open>Id<K>\<close> is a 32-bit unsigned handle whose all-ones value is the invalid
  sentinel: the default-constructed handle has the raw value \<open>2^32 - 1\<close>, and \<^verbatim>\<open>Valid()\<close>
  is false exactly at that raw value and true at every other one.
\<close>

theorem Id_sentinel:
  "unat (Id_id (Id_default :: 'k Id)) = 2 ^ 32 - 1 \<and>
   \<not> Id_Valid (Id_default :: 'k Id) \<and>
   (Id_Valid (i :: 'k Id) \<longleftrightarrow> unat (Id_id i) \<noteq> 2 ^ 32 - 1)"
proof -
  have ones: "unat (word_of_int (- 1) :: 32 word) = 2 ^ 32 - 1"
    by (rule unat_all_ones_32)
  have "Id_id i = word_of_int (- 1) \<longleftrightarrow> unat (Id_id i) = unat (word_of_int (- 1) :: 32 word)"
    by (simp only: word_unat_eq_iff)
  then have "Id_Valid i \<longleftrightarrow> unat (Id_id i) \<noteq> 2 ^ 32 - 1"
    unfolding Id_Valid_def ones by simp
  moreover have "unat (Id_id (Id_default :: 'k Id)) = 2 ^ 32 - 1"
    unfolding Id_default_def using ones by simp
  moreover have "\<not> Id_Valid (Id_default :: 'k Id)"
    by (simp add: Id_Valid_def Id_default_def)
  ultimately show ?thesis by blast
qed

text \<open>
  C5. Equality, the order and the hash of \<^verbatim>\<open>Id<K>\<close> depend only on the raw 32-bit value:
  \<open>a == b\<close> iff the raw values are equal, \<open>a < b\<close> iff the raw value of \<open>a\<close> is the smaller
  unsigned number, so that \<open><\<close> is a strict total order (irreflexive, transitive, and
  exactly one of \<open>a < b\<close>, \<open>b < a\<close>, \<open>a == b\<close> holds), and the hash of \<open>a\<close> is the hash of
  its raw value.
\<close>

theorem Id_order_raw:
  "(Id_eq a b \<longleftrightarrow> Id_id a = Id_id b) \<and> (Id_eq a b \<longleftrightarrow> a = b) \<and>
   (Id_ne a b \<longleftrightarrow> \<not> Id_eq a b) \<and>
   (Id_less a b \<longleftrightarrow> unat (Id_id a) < unat (Id_id b)) \<and>
   \<not> Id_less a a \<and>
   (Id_less a b \<and> Id_less b c \<longrightarrow> Id_less a c) \<and>
   ((Id_less a b \<and> \<not> Id_less b a \<and> \<not> Id_eq a b) \<or>
    (Id_less b a \<and> \<not> Id_less a b \<and> \<not> Id_eq a b) \<or>
    (Id_eq a b \<and> \<not> Id_less a b \<and> \<not> Id_less b a)) \<and>
   Id_hash h a = h (Id_id a) \<and>
   (Id_eq a b \<longrightarrow> Id_hash h a = Id_hash h b)"
proof -
  have eq: "Id_eq a b \<longleftrightarrow> a = b"
    by (cases a; cases b) (simp add: Id_eq_def)
  have less: "Id_less a b \<longleftrightarrow> unat (Id_id a) < unat (Id_id b)"
    by (simp add: Id_less_def word_less_nat_alt)
  have tri: "(Id_less a b \<and> \<not> Id_less b a \<and> \<not> Id_eq a b) \<or>
    (Id_less b a \<and> \<not> Id_less a b \<and> \<not> Id_eq a b) \<or>
    (Id_eq a b \<and> \<not> Id_less a b \<and> \<not> Id_less b a)"
    unfolding Id_less_def Id_eq_def by auto
  have trans: "Id_less a b \<and> Id_less b c \<longrightarrow> Id_less a c"
    unfolding Id_less_def by auto
  show ?thesis
    using eq less tri trans by (simp add: Id_eq_def Id_ne_def Id_less_def Id_hash_def)
qed

theorem Id_order_raw_witness:
  "Id_less (Id 1 :: IndexType Id) (Id 2) \<and> Id_less (Id 2 :: IndexType Id) (Id 3) \<and>
   Id_less (Id 1 :: IndexType Id) (Id 3) \<and>
   Id_eq (Id 7 :: IndexType Id) (Id 7) \<and>
   Id_hash (\<lambda>w. ucast w + 1) (Id 7 :: IndexType Id) = 8"
  using Id_order_raw [of "Id 1 :: IndexType Id" "Id 2" "Id 3" "\<lambda>w. ucast w + 1"]
    Id_order_raw [of "Id 7 :: IndexType Id" "Id 7" "Id 7" "\<lambda>w. ucast w + 1"]
  by (simp add: Id_less_def Id_eq_def Id_hash_def)

text \<open>
  C6. The conversions between kinds keep the raw value: widening an \<^verbatim>\<open>Id<K>\<close> to
  \<^verbatim>\<open>Id<void>\<close> and converting the result explicitly back to \<^verbatim>\<open>Id<K>\<close> gives a handle
  equal to the original, and each of the two conversions is the identity on the
  underlying 32-bit value.
\<close>

theorem Id_conversion_roundtrip:
  "Id_explicit (Id_implicit a) = (a :: 'k Id) \<and>
   Id_eq (Id_explicit (Id_implicit a)) a \<and>
   Id_id (Id_implicit a) = Id_id a \<and>
   Id_id (Id_explicit v :: 'k Id) = Id_id (v :: 'u Id)"
  by (cases a) (simp add: Id_explicit_def Id_implicit_def Id_eq_def)

section \<open>Properties of the orders\<close>

lemma SymbolKind_value_inj: "SymbolKind_value a = SymbolKind_value b \<longleftrightarrow> a = b"
  by (cases a; cases b) simp_all

lemma Id_eq_iff: "Id_eq a b \<longleftrightarrow> a = b"
  by (cases a; cases b) (simp add: Id_eq_def)

lemma Id_less_irrefl: "\<not> Id_less a a"
  by (simp add: Id_less_def)

lemma Id_less_trans: "Id_less a b \<Longrightarrow> Id_less b c \<Longrightarrow> Id_less a c"
  by (simp add: Id_less_def)

lemma Id_less_asym: "Id_less a b \<Longrightarrow> \<not> Id_less b a"
  by (simp add: Id_less_def)

lemma Id_less_total: "Id_less a b \<or> a = b \<or> Id_less b a"
  by (cases a; cases b) (auto simp: Id_less_def)

lemma SymbolKind_less_irrefl: "\<not> SymbolKind_less a a"
  by (simp add: SymbolKind_less_def)

lemma SymbolKind_less_trans: "SymbolKind_less a b \<Longrightarrow> SymbolKind_less b c \<Longrightarrow> SymbolKind_less a c"
  by (simp add: SymbolKind_less_def)

lemma SymbolKind_less_asym: "SymbolKind_less a b \<Longrightarrow> \<not> SymbolKind_less b a"
  by (simp add: SymbolKind_less_def)

lemma SymbolKind_less_total: "SymbolKind_less a b \<or> a = b \<or> SymbolKind_less b a"
  using SymbolKind_value_inj [of a b] by (auto simp: SymbolKind_less_def)

lemma SymbolIdx_less_lex:
  "SymbolIdx_less a b \<longleftrightarrow>
     Id_less (SymbolIdx_id a) (SymbolIdx_id b) \<or>
     (SymbolIdx_id a = SymbolIdx_id b \<and> SymbolKind_less (SymbolIdx_kind a) (SymbolIdx_kind b))"
  by (auto simp: SymbolIdx_less_def Id_eq_iff Id_less_irrefl)

lemma SymbolIdx_eq_iff: "SymbolIdx_eq a b \<longleftrightarrow> a = b"
  by (cases a; cases b) (simp add: SymbolIdx_eq_def Id_eq_iff)

lemma SymbolIdx_less_trans:
  "SymbolIdx_less a b \<Longrightarrow> SymbolIdx_less b c \<Longrightarrow> SymbolIdx_less a c"
  unfolding SymbolIdx_less_lex
  by (metis Id_less_trans SymbolKind_less_trans)

lemma SymbolIdx_trichotomy:
  "(SymbolIdx_less a b \<and> \<not> SymbolIdx_less b a \<and> \<not> SymbolIdx_eq a b) \<or>
   (SymbolIdx_less b a \<and> \<not> SymbolIdx_less a b \<and> \<not> SymbolIdx_eq a b) \<or>
   (SymbolIdx_eq a b \<and> \<not> SymbolIdx_less a b \<and> \<not> SymbolIdx_less b a)"
proof -
  consider "Id_less (SymbolIdx_id a) (SymbolIdx_id b)"
    | "Id_less (SymbolIdx_id b) (SymbolIdx_id a)"
    | "SymbolIdx_id a = SymbolIdx_id b" "SymbolKind_less (SymbolIdx_kind a) (SymbolIdx_kind b)"
    | "SymbolIdx_id a = SymbolIdx_id b" "SymbolKind_less (SymbolIdx_kind b) (SymbolIdx_kind a)"
    | "SymbolIdx_id a = SymbolIdx_id b" "SymbolIdx_kind a = SymbolIdx_kind b"
    using Id_less_total [of "SymbolIdx_id a" "SymbolIdx_id b"]
      SymbolKind_less_total [of "SymbolIdx_kind a" "SymbolIdx_kind b"] by blast
  then show ?thesis
  proof cases
    case 1
    then show ?thesis
      using Id_less_asym [of "SymbolIdx_id a" "SymbolIdx_id b"] Id_less_irrefl [of "SymbolIdx_id b"]
      by (auto simp: SymbolIdx_less_lex SymbolIdx_eq_def Id_eq_iff)
  next
    case 2
    then show ?thesis
      using Id_less_asym [of "SymbolIdx_id b" "SymbolIdx_id a"] Id_less_irrefl [of "SymbolIdx_id b"]
      by (auto simp: SymbolIdx_less_lex SymbolIdx_eq_def Id_eq_iff)
  next
    case 3
    then show ?thesis
      using SymbolKind_less_asym [of "SymbolIdx_kind a" "SymbolIdx_kind b"]
        SymbolKind_less_irrefl [of "SymbolIdx_kind b"]
      by (auto simp: SymbolIdx_less_lex SymbolIdx_eq_def Id_eq_iff Id_less_irrefl)
  next
    case 4
    then show ?thesis
      using SymbolKind_less_asym [of "SymbolIdx_kind b" "SymbolIdx_kind a"]
        SymbolKind_less_irrefl [of "SymbolIdx_kind b"]
      by (auto simp: SymbolIdx_less_lex SymbolIdx_eq_def Id_eq_iff Id_less_irrefl)
  next
    case 5
    then show ?thesis
      by (simp add: SymbolIdx_less_lex SymbolIdx_eq_def Id_eq_iff Id_less_irrefl
          SymbolKind_less_irrefl)
  qed
qed

text \<open>
  C9. \<^verbatim>\<open>SymbolIdx::operator<\<close> is the lexicographic strict order on the pair \<open>(id, kind)\<close>
  and \<^verbatim>\<open>SymbolIdx::operator==\<close> is equality of both components. Together they are a
  strict total order consistent with equality: \<open><\<close> is irreflexive and transitive, and
  exactly one of \<open>a < b\<close>, \<open>b < a\<close>, \<open>a == b\<close> holds for any two values.
\<close>

theorem SymbolIdx_strict_total_order:
  "(SymbolIdx_less a b \<longleftrightarrow>
      Id_less (SymbolIdx_id a) (SymbolIdx_id b) \<or>
      (SymbolIdx_id a = SymbolIdx_id b \<and> SymbolKind_less (SymbolIdx_kind a) (SymbolIdx_kind b))) \<and>
   (SymbolIdx_eq a b \<longleftrightarrow>
      SymbolIdx_id a = SymbolIdx_id b \<and> SymbolIdx_kind a = SymbolIdx_kind b) \<and>
   (SymbolIdx_eq a b \<longleftrightarrow> a = b) \<and>
   \<not> SymbolIdx_less a a \<and>
   (SymbolIdx_less a b \<and> SymbolIdx_less b c \<longrightarrow> SymbolIdx_less a c) \<and>
   ((SymbolIdx_less a b \<and> \<not> SymbolIdx_less b a \<and> \<not> SymbolIdx_eq a b) \<or>
    (SymbolIdx_less b a \<and> \<not> SymbolIdx_less a b \<and> \<not> SymbolIdx_eq a b) \<or>
    (SymbolIdx_eq a b \<and> \<not> SymbolIdx_less a b \<and> \<not> SymbolIdx_less b a))"
proof -
  have "SymbolIdx_eq a b \<longleftrightarrow>
      SymbolIdx_id a = SymbolIdx_id b \<and> SymbolIdx_kind a = SymbolIdx_kind b"
    by (simp add: SymbolIdx_eq_def Id_eq_iff)
  moreover have "\<not> SymbolIdx_less a a"
    by (simp add: SymbolIdx_less_lex Id_less_irrefl SymbolKind_less_irrefl)
  moreover have "SymbolIdx_less a b \<and> SymbolIdx_less b c \<longrightarrow> SymbolIdx_less a c"
    using SymbolIdx_less_trans by blast
  ultimately show ?thesis
    using SymbolIdx_less_lex [of a b] SymbolIdx_eq_iff [of a b] SymbolIdx_trichotomy [of a b]
    by blast
qed

theorem SymbolIdx_strict_total_order_witness:
  "SymbolIdx_less \<lparr>SymbolIdx_id = Id 1, SymbolIdx_kind = SymbolKind_Var\<rparr>
     \<lparr>SymbolIdx_id = Id 2, SymbolIdx_kind = SymbolKind_File\<rparr> \<and>
   SymbolIdx_less \<lparr>SymbolIdx_id = Id 2, SymbolIdx_kind = SymbolKind_File\<rparr>
     \<lparr>SymbolIdx_id = Id 2, SymbolIdx_kind = SymbolKind_Type\<rparr> \<and>
   SymbolIdx_less \<lparr>SymbolIdx_id = Id 1, SymbolIdx_kind = SymbolKind_Var\<rparr>
     \<lparr>SymbolIdx_id = Id 2, SymbolIdx_kind = SymbolKind_Type\<rparr>"
  using SymbolIdx_strict_total_order
    [of "\<lparr>SymbolIdx_id = Id 1, SymbolIdx_kind = SymbolKind_Var\<rparr>"
        "\<lparr>SymbolIdx_id = Id 2, SymbolIdx_kind = SymbolKind_File\<rparr>"
        "\<lparr>SymbolIdx_id = Id 2, SymbolIdx_kind = SymbolKind_Type\<rparr>"]
  by (simp add: SymbolIdx_less_def Id_eq_def Id_less_def SymbolKind_less_def)

lemma tuple_less_lex:
  "tuple_less (r1, i1, k1, l1) (r2, i2, k2, l2) \<longleftrightarrow>
     r1 < r2 \<or> (r1 = r2 \<and> (Id_less i1 i2 \<or> (i1 = i2 \<and>
       (SymbolKind_less k1 k2 \<or> (k1 = k2 \<and> l1 < l2)))))"
proof (cases "r1 < r2")
  case True
  then show ?thesis by simp
next
  case r12: False
  show ?thesis
  proof (cases "r2 < r1")
    case True
    then show ?thesis using r12 by auto
  next
    case False
    with r12 have r: "r1 = r2" by simp
    show ?thesis
    proof (cases "Id_less i1 i2")
      case True
      then show ?thesis using r by simp
    next
      case i12: False
      show ?thesis
      proof (cases "Id_less i2 i1")
        case True
        then have "i1 \<noteq> i2" using Id_less_irrefl by blast
        then show ?thesis using r i12 True by simp
      next
        case False
        with i12 have i: "i1 = i2" using Id_less_total [of i1 i2] by blast
        show ?thesis
        proof (cases "SymbolKind_less k1 k2")
          case True
          then show ?thesis using r i by (simp add: Id_less_irrefl)
        next
          case k12: False
          show ?thesis
          proof (cases "SymbolKind_less k2 k1")
            case True
            then have "k1 \<noteq> k2" using SymbolKind_less_irrefl by blast
            then show ?thesis using r i k12 True by (simp add: Id_less_irrefl)
          next
            case False
            with k12 have "k1 = k2" using SymbolKind_less_total [of k1 k2] by blast
            then show ?thesis
              using r i by (simp add: Id_less_irrefl SymbolKind_less_irrefl)
          qed
        qed
      qed
    qed
  qed
qed

lemma Reference_less_lex:
  "Reference_less a b \<longleftrightarrow>
     Reference_range a < Reference_range b \<or>
     (Reference_range a = Reference_range b \<and>
      (Id_less (Reference_id a) (Reference_id b) \<or>
       (Reference_id a = Reference_id b \<and>
        (SymbolKind_less (Reference_kind a) (Reference_kind b) \<or>
         (Reference_kind a = Reference_kind b \<and> Reference_role a < Reference_role b)))))"
  by (simp only: Reference_less_def ToTuple_def tuple_less_lex)

lemma Reference_eq_components:
  "Reference_eq a b \<longleftrightarrow>
     Reference_range a = Reference_range b \<and> Reference_id a = Reference_id b \<and>
     Reference_kind a = Reference_kind b \<and> Reference_role a = Reference_role b"
  by (simp add: Reference_eq_def ToTuple_def Id_eq_iff)

lemma Reference_eq_ToTuple: "Reference_eq a b \<longleftrightarrow> ToTuple a = ToTuple b"
  by (simp add: Reference_eq_components ToTuple_def)

lemma Reference_less_irrefl: "\<not> Reference_less a a"
  by (simp add: Reference_less_lex Id_less_irrefl SymbolKind_less_irrefl)

lemma Reference_less_trans:
  assumes "Reference_less a b" and "Reference_less b c"
  shows "Reference_less a c"
  using assms unfolding Reference_less_lex
  by (auto dest: Id_less_trans SymbolKind_less_trans)

lemma Reference_less_total: "Reference_less a b \<or> Reference_eq a b \<or> Reference_less b a"
proof -
  note r = less_linear [of "Reference_range a" "Reference_range b"]
  note i = Id_less_total [of "Reference_id a" "Reference_id b"]
  note k = SymbolKind_less_total [of "Reference_kind a" "Reference_kind b"]
  note l = less_linear [of "Reference_role a" "Reference_role b"]
  show ?thesis
    unfolding Reference_less_lex Reference_eq_components
    using r i k l by auto
qed

lemma Reference_less_asym: "Reference_less a b \<Longrightarrow> \<not> Reference_less b a"
  using Reference_less_trans [of a b a] Reference_less_irrefl [of a] by blast

lemma Reference_less_not_eq: "Reference_less a b \<Longrightarrow> \<not> Reference_eq a b"
  unfolding Reference_less_lex Reference_eq_components
  by (auto simp: Id_less_irrefl SymbolKind_less_irrefl)

lemma Reference_sorted_head_unique:
  fixes x y :: "('r::linorder, 'z) Reference_scheme"
  assumes sx: "sorted_wrt (\<lambda>a b. \<not> Reference_less b a) (x # xs)"
    and sy: "sorted_wrt (\<lambda>a b. \<not> Reference_less b a) (y # ys)"
    and m: "mset (map ToTuple (x # xs)) = mset (map ToTuple (y # ys))"
  shows "ToTuple x = ToTuple y"
proof -
  have xy: "\<not> Reference_less y x"
  proof -
    have "ToTuple y \<in> set (map ToTuple (x # xs))"
      using m by (metis list.set_intros(1) list.simps(9) set_mset_mset)
    then obtain z where z: "z \<in> set (x # xs)" "ToTuple y = ToTuple z"
      by auto
    have "\<not> Reference_less z x"
      using sx z(1) by (auto simp: Reference_less_irrefl)
    then show ?thesis
      using z(2) by (simp add: Reference_less_def)
  qed
  have yx: "\<not> Reference_less x y"
  proof -
    have "ToTuple x \<in> set (map ToTuple (y # ys))"
      using m by (metis list.set_intros(1) list.simps(9) set_mset_mset)
    then obtain z where z: "z \<in> set (y # ys)" "ToTuple x = ToTuple z"
      by auto
    have "\<not> Reference_less z y"
      using sy z(1) by (auto simp: Reference_less_irrefl)
    then show ?thesis
      using z(2) by (simp add: Reference_less_def)
  qed
  from xy yx have "Reference_eq x y"
    using Reference_less_total [of x y] by blast
  then show ?thesis
    by (simp add: Reference_eq_ToTuple)
qed

lemma Reference_sorted_unique:
  fixes xs ys :: "('r::linorder, 'z) Reference_scheme list"
  assumes "sorted_wrt (\<lambda>a b. \<not> Reference_less b a) xs"
    and "sorted_wrt (\<lambda>a b. \<not> Reference_less b a) ys"
    and "mset (map ToTuple xs) = mset (map ToTuple ys)"
  shows "map ToTuple xs = map ToTuple ys"
  using assms
proof (induction xs arbitrary: ys)
  case Nil
  then show ?case by simp
next
  case (Cons x xs)
  from Cons.prems(3) have "ys \<noteq> []" by auto
  then obtain y ys' where ys: "ys = y # ys'" by (cases ys) auto
  have hd: "ToTuple x = ToTuple y"
    using Reference_sorted_head_unique [of x xs y ys'] Cons.prems ys by simp
  with Cons.prems(3) ys have "mset (map ToTuple xs) = mset (map ToTuple ys')"
    by simp
  moreover have "sorted_wrt (\<lambda>a b. \<not> Reference_less b a) xs"
    using Cons.prems(1) by simp
  moreover have "sorted_wrt (\<lambda>a b. \<not> Reference_less b a) ys'"
    using Cons.prems(2) ys by simp
  ultimately have "map ToTuple xs = map ToTuple ys'"
    using Cons.IH by blast
  with hd ys show ?case by simp
qed

text \<open>
  C3. The order on \<^verbatim>\<open>Reference\<close>, which \<^verbatim>\<open>SymbolRef\<close> and \<^verbatim>\<open>Use\<close> inherit, is the
  lexicographic order on the tuple \<open>(range, id, kind, role)\<close>: it sorts by range first and
  breaks ties by the id, the kind and the role. \<^verbatim>\<open>operator==\<close> holds exactly when the four
  components are equal. The order is a strict total order, so sorting by it is
  deterministic: two lists sorted by it that hold the same tuples hold them in the same
  sequence.
\<close>

theorem Reference_order_lexicographic:
  fixes a b c :: "('r::linorder, 'z) Reference_scheme"
    and xs ys :: "('r, 'z) Reference_scheme list"
  shows
  "(Reference_less a b \<longleftrightarrow>
      Reference_range a < Reference_range b \<or>
      (Reference_range a = Reference_range b \<and>
       (Id_less (Reference_id a) (Reference_id b) \<or>
        (Reference_id a = Reference_id b \<and>
         (SymbolKind_less (Reference_kind a) (Reference_kind b) \<or>
          (Reference_kind a = Reference_kind b \<and> Reference_role a < Reference_role b)))))) \<and>
   (Reference_eq a b \<longleftrightarrow>
      Reference_range a = Reference_range b \<and> Reference_id a = Reference_id b \<and>
      Reference_kind a = Reference_kind b \<and> Reference_role a = Reference_role b) \<and>
   (Reference_range a < Reference_range b \<longrightarrow> Reference_less a b) \<and>
   (Reference_less a b \<longrightarrow> Reference_range a \<le> Reference_range b) \<and>
   \<not> Reference_less a a \<and>
   (Reference_less a b \<and> Reference_less b c \<longrightarrow> Reference_less a c) \<and>
   ((Reference_less a b \<and> \<not> Reference_less b a \<and> \<not> Reference_eq a b) \<or>
    (Reference_less b a \<and> \<not> Reference_less a b \<and> \<not> Reference_eq a b) \<or>
    (Reference_eq a b \<and> \<not> Reference_less a b \<and> \<not> Reference_less b a)) \<and>
   (sorted_wrt (\<lambda>a b. \<not> Reference_less b a) xs \<and>
    sorted_wrt (\<lambda>a b. \<not> Reference_less b a) ys \<and>
    mset (map ToTuple xs) = mset (map ToTuple ys) \<longrightarrow>
      map ToTuple xs = map ToTuple ys)"
proof -
  have primary: "Reference_range a < Reference_range b \<longrightarrow> Reference_less a b"
    by (simp add: Reference_less_lex)
  have primary': "Reference_less a b \<longrightarrow> Reference_range a \<le> Reference_range b"
    by (auto simp: Reference_less_lex)
  have trans: "Reference_less a b \<and> Reference_less b c \<longrightarrow> Reference_less a c"
    using Reference_less_trans by blast
  have tri: "(Reference_less a b \<and> \<not> Reference_less b a \<and> \<not> Reference_eq a b) \<or>
    (Reference_less b a \<and> \<not> Reference_less a b \<and> \<not> Reference_eq a b) \<or>
    (Reference_eq a b \<and> \<not> Reference_less a b \<and> \<not> Reference_less b a)"
    using Reference_less_total [of a b] Reference_less_asym [of a b] Reference_less_asym [of b a]
      Reference_less_not_eq [of a b] Reference_less_not_eq [of b a]
    by (auto simp: Reference_eq_components)
  have det: "sorted_wrt (\<lambda>a b. \<not> Reference_less b a) xs \<and>
    sorted_wrt (\<lambda>a b. \<not> Reference_less b a) ys \<and>
    mset (map ToTuple xs) = mset (map ToTuple ys) \<longrightarrow> map ToTuple xs = map ToTuple ys"
    using Reference_sorted_unique [of xs ys] by blast
  show ?thesis
    using Reference_less_lex [of a b] Reference_eq_components [of a b] primary primary'
      Reference_less_irrefl [of a] trans tri det
    by blast
qed

theorem Reference_order_lexicographic_witness:
  "Reference_less
     \<lparr>Reference_range = ((1::nat, 1::nat), (1::nat, 5::nat)), Reference_id = Id 9,
      Reference_kind = SymbolKind_Var, Reference_role = 4\<rparr>
     \<lparr>Reference_range = ((1, 1), (2, 0)), Reference_id = Id 3,
      Reference_kind = SymbolKind_Type, Reference_role = 1\<rparr> \<and>
   Reference_less
     \<lparr>Reference_range = ((1::nat, 1::nat), (2::nat, 0::nat)), Reference_id = Id 3,
      Reference_kind = SymbolKind_Type, Reference_role = 1\<rparr>
     \<lparr>Reference_range = ((1, 1), (2, 0)), Reference_id = Id 3,
      Reference_kind = SymbolKind_Type, Reference_role = 2\<rparr> \<and>
   Reference_less
     \<lparr>Reference_range = ((1::nat, 1::nat), (1::nat, 5::nat)), Reference_id = Id 9,
      Reference_kind = SymbolKind_Var, Reference_role = 4\<rparr>
     \<lparr>Reference_range = ((1, 1), (2, 0)), Reference_id = Id 3,
      Reference_kind = SymbolKind_Type, Reference_role = 2\<rparr> \<and>
   sorted_wrt (\<lambda>a b. \<not> Reference_less b a)
     [\<lparr>Reference_range = ((1::nat, 1::nat), (1::nat, 5::nat)), Reference_id = Id 9,
       Reference_kind = SymbolKind_Var, Reference_role = 4\<rparr>,
      \<lparr>Reference_range = ((1, 1), (2, 0)), Reference_id = Id 3,
       Reference_kind = SymbolKind_Type, Reference_role = 1\<rparr>]"
  using Reference_order_lexicographic
    [of "\<lparr>Reference_range = ((1::nat, 1::nat), (1::nat, 5::nat)), Reference_id = Id 9,
          Reference_kind = SymbolKind_Var, Reference_role = 4\<rparr>"
        "\<lparr>Reference_range = ((1, 1), (2, 0)), Reference_id = Id 3,
          Reference_kind = SymbolKind_Type, Reference_role = 1\<rparr>"
        "\<lparr>Reference_range = ((1, 1), (2, 0)), Reference_id = Id 3,
          Reference_kind = SymbolKind_Type, Reference_role = 2\<rparr>"
        "[\<lparr>Reference_range = ((1, 1), (1, 5)), Reference_id = Id 9,
           Reference_kind = SymbolKind_Var, Reference_role = 4\<rparr>,
          \<lparr>Reference_range = ((1, 1), (2, 0)), Reference_id = Id 3,
           Reference_kind = SymbolKind_Type, Reference_role = 1\<rparr>]"
        "[\<lparr>Reference_range = ((1, 1), (1, 5)), Reference_id = Id 9,
           Reference_kind = SymbolKind_Var, Reference_role = 4\<rparr>,
          \<lparr>Reference_range = ((1, 1), (2, 0)), Reference_id = Id 3,
           Reference_kind = SymbolKind_Type, Reference_role = 1\<rparr>]"]
  by (simp add: Reference_less_def ToTuple_def Id_less_def SymbolKind_less_def)

section \<open>Properties of the entity definitions\<close>

text \<open>
  C7. For every variable definition \<open>v\<close>, \<^verbatim>\<open>v.is_local()\<close> is true exactly when the kind
  of \<open>v\<close> is \<^verbatim>\<open>lsSymbolKind::Variable\<close>; it is false for every other kind, such as
  Field, Parameter and EnumMember.
\<close>

theorem is_local_iff_Variable:
  "is_local v = (kind v = lsSymbolKind_Variable) \<and>
   is_local (v\<lparr>kind := lsSymbolKind_Variable\<rparr>) \<and>
   \<not> is_local (v\<lparr>kind := lsSymbolKind_Field\<rparr>) \<and>
   \<not> is_local (v\<lparr>kind := lsSymbolKind_Parameter\<rparr>) \<and>
   \<not> is_local (v\<lparr>kind := lsSymbolKind_EnumMember\<rparr>) \<and>
   \<not> is_local (v\<lparr>kind := lsSymbolKind_Unknown\<rparr>)"
  by (simp add: is_local_def)

subsection \<open>Names\<close>

lemma int16_bounds: "- 32768 \<le> sint (w :: 16 word) \<and> sint w \<le> 32767"
  using sint_ge [of w] sint_lt [of w] by simp

lemma promoted_sum_fits_int:
  "- (2 ^ 31) \<le> sint (s :: 16 word) - sint (q :: 16 word) + sint (n :: 16 word) \<and>
   sint s - sint q + sint n < 2 ^ 31"
  using int16_bounds [of s] int16_bounds [of q] int16_bounds [of n] by simp

lemma unat_size_t_of_int:
  assumes "0 \<le> n" and "n < 2 ^ 64"
  shows "unat (word_of_int n :: 64 word) = nat n"
  using assms by (simp add: unsigned_of_int take_bit_int_eq_self)

lemma sv_size_string_view_at:
  assumes "0 \<le> n" and "n < 2 ^ 64"
  shows "int (unat (sv_size (string_view_at off n))) = n"
proof -
  have "sv_size (string_view_at off n) = word_of_int n"
    by (simp only: string_view_at_def string_view.select_convs)
  then show ?thesis
    using assms by (simp only: unat_size_t_of_int int_nat_eq if_True)
qed

lemma sv_data_string_view_at: "sv_data (string_view_at off n) = off"
  by (simp add: string_view_at_def)

lemma sv_chars_c_str:
  assumes "0 \<le> off" and "0 \<le> n" and "n < 2 ^ 64" and "off + n \<le> int (length s)"
  shows "sv_chars (c_str s) (string_view_at off n) = Inr (take (nat n) (drop (nat off) s))"
proof -
  have u: "unat (word_of_int n :: 64 word) = nat n"
    using assms(2,3) by (rule unat_size_t_of_int)
  have "nat off + nat n \<le> length s"
    using assms by linarith
  then have "take (nat n) (drop (nat off) (s @ [CHR 0x00])) = take (nat n) (drop (nat off) s)"
    by simp
  then show ?thesis
    using assms u by (simp add: sv_chars_def c_str_def string_view_at_def)
qed

lemma length_take_drop_exact:
  assumes "0 \<le> off" and "0 \<le> n" and "off + n \<le> int (length s)"
  shows "length (take (nat n) (drop (nat off) s)) = nat n"
  using assms by simp

text \<open>
  C2, as the code has it. For every entity definition whose offsets satisfy
  \<open>0 \<le> qual_name_offset \<le> short_name_offset\<close>, \<open>0 \<le> short_name_size\<close> and
  \<open>short_name_offset + short_name_size \<le> length detailed_name\<close>, \<^verbatim>\<open>Name(false)\<close> is the
  substring of \<^verbatim>\<open>detailed_name\<close> that starts at \<open>short_name_offset\<close> and has the length
  \<open>short_name_size\<close> (the short name), and \<^verbatim>\<open>Name(true)\<close> is the substring that starts at
  \<open>qual_name_offset\<close> and has the length
  \<open>short_name_offset - qual_name_offset + short_name_size\<close> (the qualified name).
\<close>

theorem Name_substrings:
  assumes "name_offsets_ok self" and "0 \<le> sint (short_name_size self)"
  shows
    "Name_chars self False =
       Inr (take (nat (sint (short_name_size self)))
              (drop (nat (sint (short_name_offset self))) (detailed_name self))) \<and>
     length (take (nat (sint (short_name_size self)))
              (drop (nat (sint (short_name_offset self))) (detailed_name self)))
       = nat (sint (short_name_size self)) \<and>
     Name_chars self True =
       Inr (take (nat (sint (short_name_offset self) - sint (qual_name_offset self) +
                       sint (short_name_size self)))
              (drop (nat (sint (qual_name_offset self))) (detailed_name self))) \<and>
     length (take (nat (sint (short_name_offset self) - sint (qual_name_offset self) +
                        sint (short_name_size self)))
              (drop (nat (sint (qual_name_offset self))) (detailed_name self)))
       = nat (sint (short_name_offset self) - sint (qual_name_offset self) +
              sint (short_name_size self))"
proof -
  let ?q = "sint (qual_name_offset self)"
  let ?s = "sint (short_name_offset self)"
  let ?n = "sint (short_name_size self)"
  have q: "0 \<le> ?q" and qs: "?q \<le> ?s" and sn: "?s + ?n \<le> int (length (detailed_name self))"
    using assms(1) by (simp_all add: name_offsets_ok_def)
  have n: "0 \<le> ?n" by (rule assms(2))
  have small: "?n < 2 ^ 64" "?s - ?q + ?n < 2 ^ 64"
    using int16_bounds [of "short_name_size self"] int16_bounds [of "short_name_offset self"]
      int16_bounds [of "qual_name_offset self"] by simp_all
  have short: "Name_chars self False = Inr (take (nat ?n) (drop (nat ?s) (detailed_name self)))"
    unfolding Name_chars_def Name_def using q qs sn n small(1)
    by (simp add: sv_chars_c_str)
  have qual: "Name_chars self True =
      Inr (take (nat (?s - ?q + ?n)) (drop (nat ?q) (detailed_name self)))"
    unfolding Name_chars_def Name_def using q qs sn n small(2)
    by (simp add: sv_chars_c_str)
  have l1: "length (take (nat ?n) (drop (nat ?s) (detailed_name self))) = nat ?n"
    using q qs sn n by (intro length_take_drop_exact) simp_all
  have l2: "length (take (nat (?s - ?q + ?n)) (drop (nat ?q) (detailed_name self)))
      = nat (?s - ?q + ?n)"
    using q qs sn n by (intro length_take_drop_exact) simp_all
  show ?thesis using short qual l1 l2 by simp
qed

theorem Name_substrings_witness:
  "name_offsets_ok
     \<lparr>detailed_name = ''void ns::C::m()'', hover = [], comments = [],
      spell = (None :: nat Use option), extent = None, file = Id 0, qual_name_offset = 5,
      short_name_offset = 12, short_name_size = 1, kind = lsSymbolKind_Method\<rparr> \<and>
   Name_chars
     \<lparr>detailed_name = ''void ns::C::m()'', hover = [], comments = [],
      spell = (None :: nat Use option), extent = None, file = Id 0, qual_name_offset = 5,
      short_name_offset = 12, short_name_size = 1, kind = lsSymbolKind_Method\<rparr> False
     = Inr ''m'' \<and>
   Name_chars
     \<lparr>detailed_name = ''void ns::C::m()'', hover = [], comments = [],
      spell = (None :: nat Use option), extent = None, file = Id 0, qual_name_offset = 5,
      short_name_offset = 12, short_name_size = 1, kind = lsSymbolKind_Method\<rparr> True
     = Inr ''ns::C::m''"
  using Name_substrings
    [of "\<lparr>detailed_name = ''void ns::C::m()'', hover = [], comments = [],
      spell = (None :: nat Use option), extent = None, file = Id 0, qual_name_offset = 5,
      short_name_offset = 12, short_name_size = 1, kind = lsSymbolKind_Method\<rparr>"]
  by (simp add: name_offsets_ok_def)

text \<open>
  C2 without the bound \<open>0 \<le> short_name_size\<close>: the offsets \<open>0\<close>, \<open>0\<close> and the size \<open>-1\<close>
  satisfy the two inequalities of the claim in a name of five characters, yet the size
  converts to the \<^verbatim>\<open>size_t\<close> \<open>2^64 - 1\<close> and neither view is a substring of the name.
\<close>

theorem Name_negative_size_counterexample:
  "name_offsets_ok
     \<lparr>detailed_name = ''abcde'', hover = [], comments = [],
      spell = (None :: nat Use option), extent = None, file = Id 0, qual_name_offset = 0,
      short_name_offset = 0, short_name_size = - 1, kind = lsSymbolKind_Unknown\<rparr> \<and>
   Name_chars
     \<lparr>detailed_name = ''abcde'', hover = [], comments = [],
      spell = (None :: nat Use option), extent = None, file = Id 0, qual_name_offset = 0,
      short_name_offset = 0, short_name_size = - 1, kind = lsSymbolKind_Unknown\<rparr> False
     = Inl OutOfBounds \<and>
   Name_chars
     \<lparr>detailed_name = ''abcde'', hover = [], comments = [],
      spell = (None :: nat Use option), extent = None, file = Id 0, qual_name_offset = 0,
      short_name_offset = 0, short_name_size = - 1, kind = lsSymbolKind_Unknown\<rparr> True
     = Inl OutOfBounds"
  by (simp add: name_offsets_ok_def Name_chars_def Name_def string_view_at_def sv_chars_def
      c_str_def unsigned_minus_1_eq_mask mask_eq_exp_minus_1)

text \<open>
  C10, as the code has it. \<^verbatim>\<open>NameMixin::Name\<close> stays inside \<^verbatim>\<open>detailed_name\<close> provided
  \<open>0 \<le> qual_name_offset \<le> short_name_offset\<close>, \<open>0 \<le> short_name_size\<close> and
  \<open>short_name_offset + short_name_size \<le> length detailed_name\<close>: the computed length
  \<open>short_name_offset - qual_name_offset + short_name_size\<close> is non-negative and reaches
  \<^verbatim>\<open>size_t\<close> unchanged, and in both branches the view starts inside the string and ends
  inside it.
\<close>

theorem Name_view_in_bounds:
  assumes "name_offsets_ok self" and "0 \<le> sint (short_name_size self)"
  shows
    "0 \<le> sint (short_name_offset self) - sint (qual_name_offset self) +
          sint (short_name_size self) \<and>
     int (unat (sv_size (Name self True))) =
       sint (short_name_offset self) - sint (qual_name_offset self) +
       sint (short_name_size self) \<and>
     int (unat (sv_size (Name self False))) = sint (short_name_size self) \<and>
     0 \<le> sv_data (Name self qualified) \<and>
     sv_data (Name self qualified) \<le> int (length (detailed_name self)) \<and>
     sv_data (Name self qualified) + int (unat (sv_size (Name self qualified)))
       \<le> int (length (detailed_name self))"
proof -
  let ?q = "sint (qual_name_offset self)"
  let ?s = "sint (short_name_offset self)"
  let ?n = "sint (short_name_size self)"
  have q: "0 \<le> ?q" and qs: "?q \<le> ?s" and sn: "?s + ?n \<le> int (length (detailed_name self))"
    using assms(1) by (simp_all add: name_offsets_ok_def)
  have n: "0 \<le> ?n" by (rule assms(2))
  have small: "?n < 2 ^ 64" "?s - ?q + ?n < 2 ^ 64"
    using int16_bounds [of "short_name_size self"] int16_bounds [of "short_name_offset self"]
      int16_bounds [of "qual_name_offset self"] by simp_all
  have len: "0 \<le> ?s - ?q + ?n" using qs n by simp
  have uq: "int (unat (sv_size (Name self True))) = ?s - ?q + ?n"
    using len small(2) by (simp only: Name_def if_True sv_size_string_view_at)
  have us: "int (unat (sv_size (Name self False))) = ?n"
    using n small(1) by (simp only: Name_def if_False sv_size_string_view_at)
  have dq: "sv_data (Name self True) = ?q" and ds: "sv_data (Name self False) = ?s"
    by (simp_all only: Name_def if_True if_False sv_data_string_view_at)
  show ?thesis
  proof (cases "qualified")
    case True
    then show ?thesis using len uq us dq q qs sn n by simp
  next
    case False
    then show ?thesis using len uq us ds q qs sn n by simp
  qed
qed

theorem Name_view_in_bounds_witness:
  "name_offsets_ok
     \<lparr>detailed_name = ''int n::v'', hover = [], comments = [],
      spell = (None :: nat Use option), extent = None, file = Id 0, qual_name_offset = 4,
      short_name_offset = 7, short_name_size = 1, kind = lsSymbolKind_Variable\<rparr> \<and>
   Name
     \<lparr>detailed_name = ''int n::v'', hover = [], comments = [],
      spell = (None :: nat Use option), extent = None, file = Id 0, qual_name_offset = 4,
      short_name_offset = 7, short_name_size = 1, kind = lsSymbolKind_Variable\<rparr> True
     = \<lparr>sv_data = 4, sv_size = 4\<rparr> \<and>
   Name
     \<lparr>detailed_name = ''int n::v'', hover = [], comments = [],
      spell = (None :: nat Use option), extent = None, file = Id 0, qual_name_offset = 4,
      short_name_offset = 7, short_name_size = 1, kind = lsSymbolKind_Variable\<rparr> False
     = \<lparr>sv_data = 7, sv_size = 1\<rparr>"
  using Name_view_in_bounds
    [of "\<lparr>detailed_name = ''int n::v'', hover = [], comments = [],
      spell = (None :: nat Use option), extent = None, file = Id 0, qual_name_offset = 4,
      short_name_offset = 7, short_name_size = 1, kind = lsSymbolKind_Variable\<rparr>" True]
  by (simp add: name_offsets_ok_def Name_def string_view_at_def)

text \<open>
  C10 without the bound \<open>0 \<le> short_name_size\<close>: with the offsets \<open>0\<close>, \<open>1\<close> and the size
  \<open>-2\<close> in a name of two characters the two inequalities of the claim hold, the computed
  length is \<open>-1\<close>, and the views have the lengths \<open>2^64 - 1\<close> and \<open>2^64 - 2\<close>.
\<close>

theorem Name_view_negative_length_counterexample:
  "name_offsets_ok
     \<lparr>detailed_name = ''ab'', hover = [], comments = [],
      spell = (None :: nat Use option), extent = None, file = Id 0, qual_name_offset = 0,
      short_name_offset = 1, short_name_size = - 2, kind = lsSymbolKind_Unknown\<rparr> \<and>
   sint (short_name_offset
     \<lparr>detailed_name = ''ab'', hover = [], comments = [],
      spell = (None :: nat Use option), extent = None, file = Id 0, qual_name_offset = 0,
      short_name_offset = 1, short_name_size = - 2, kind = lsSymbolKind_Unknown\<rparr>) -
   sint (qual_name_offset
     \<lparr>detailed_name = ''ab'', hover = [], comments = [],
      spell = (None :: nat Use option), extent = None, file = Id 0, qual_name_offset = 0,
      short_name_offset = 1, short_name_size = - 2, kind = lsSymbolKind_Unknown\<rparr>) +
   sint (short_name_size
     \<lparr>detailed_name = ''ab'', hover = [], comments = [],
      spell = (None :: nat Use option), extent = None, file = Id 0, qual_name_offset = 0,
      short_name_offset = 1, short_name_size = - 2, kind = lsSymbolKind_Unknown\<rparr>) = - 1 \<and>
   unat (sv_size (Name
     \<lparr>detailed_name = ''ab'', hover = [], comments = [],
      spell = (None :: nat Use option), extent = None, file = Id 0, qual_name_offset = 0,
      short_name_offset = 1, short_name_size = - 2, kind = lsSymbolKind_Unknown\<rparr> True))
     = 2 ^ 64 - 1 \<and>
   unat (sv_size (Name
     \<lparr>detailed_name = ''ab'', hover = [], comments = [],
      spell = (None :: nat Use option), extent = None, file = Id 0, qual_name_offset = 0,
      short_name_offset = 1, short_name_size = - 2, kind = lsSymbolKind_Unknown\<rparr> False))
     = 2 ^ 64 - 2 \<and>
   Name_chars
     \<lparr>detailed_name = ''ab'', hover = [], comments = [],
      spell = (None :: nat Use option), extent = None, file = Id 0, qual_name_offset = 0,
      short_name_offset = 1, short_name_size = - 2, kind = lsSymbolKind_Unknown\<rparr> True = Inl OutOfBounds"
  by (simp add: name_offsets_ok_def Name_chars_def Name_def string_view_at_def sv_chars_def
      c_str_def unsigned_minus_1_eq_mask mask_eq_exp_minus_1)

subsection \<open>Equality\<close>

lemma Id_eq_refl: "Id_eq a a"
  by (simp add: Id_eq_def)

lemma Reference_eq_refl: "Reference_eq a a"
  by (simp add: Reference_eq_def ToTuple_def Id_eq_def)

lemma Maybe_eq_refl:
  assumes "\<And>x. eq x x"
  shows "Maybe_eq eq m m"
  using assms by (cases m) simp_all

lemma vector_eq_refl:
  assumes "\<And>x. eq x x"
  shows "vector_eq eq xs xs"
  using assms by (induction xs) simp_all

lemma TypeDef_eq_refl: "TypeDef_eq a a"
  by (simp add: TypeDef_eq_def Maybe_eq_refl vector_eq_refl Id_eq_refl Reference_eq_refl)

lemma FuncDef_eq_refl: "FuncDef_eq a a"
  by (simp add: FuncDef_eq_def Maybe_eq_refl vector_eq_refl Id_eq_refl Reference_eq_refl)

lemma VarDef_eq_refl: "VarDef_eq a a"
  by (simp add: VarDef_eq_def Maybe_eq_refl vector_eq_refl Id_eq_refl Reference_eq_refl)

lemma TypeDef_eq_ignores:
  "TypeDef_eq
     (a\<lparr>file := f, qual_name_offset := q, short_name_offset := s, short_name_size := n\<rparr>)
     (b\<lparr>file := f', qual_name_offset := q', short_name_offset := s', short_name_size := n'\<rparr>)
   = TypeDef_eq a b"
  by (simp add: TypeDef_eq_def)

lemma FuncDef_eq_ignores:
  "FuncDef_eq
     (a\<lparr>file := f, qual_name_offset := q, short_name_offset := s, short_name_size := n\<rparr>)
     (b\<lparr>file := f', qual_name_offset := q', short_name_offset := s', short_name_size := n'\<rparr>)
   = FuncDef_eq a b"
  by (simp add: FuncDef_eq_def)

lemma VarDef_eq_ignores:
  "VarDef_eq
     (a\<lparr>file := f, qual_name_offset := q, short_name_offset := s, short_name_size := n\<rparr>)
     (b\<lparr>file := f', qual_name_offset := q', short_name_offset := s', short_name_size := n'\<rparr>)
   = VarDef_eq a b"
  by (simp add: VarDef_eq_def)

text \<open>
  C8. Equality of entity definitions ignores the owning file and the name offsets:
  \<^verbatim>\<open>TypeDef::operator==\<close>, \<^verbatim>\<open>FuncDef::operator==\<close> and \<^verbatim>\<open>VarDef::operator==\<close> compare neither
  \<open>file\<close> nor \<open>qual_name_offset\<close>, \<open>short_name_offset\<close>, \<open>short_name_size\<close>. Two definitions
  that differ only in those fields compare equal, and changing those fields on either
  side never changes the result of a comparison.
\<close>

theorem Def_eq_ignores_file_and_name_offsets:
  "TypeDef_eq t
     (t\<lparr>file := f, qual_name_offset := q, short_name_offset := s, short_name_size := n\<rparr>) \<and>
   FuncDef_eq fn
     (fn\<lparr>file := f, qual_name_offset := q, short_name_offset := s, short_name_size := n\<rparr>) \<and>
   VarDef_eq v
     (v\<lparr>file := f, qual_name_offset := q, short_name_offset := s, short_name_size := n\<rparr>) \<and>
   TypeDef_eq
     (t\<lparr>file := f, qual_name_offset := q, short_name_offset := s, short_name_size := n\<rparr>)
     (t'\<lparr>file := f', qual_name_offset := q', short_name_offset := s', short_name_size := n'\<rparr>)
     = TypeDef_eq t t' \<and>
   FuncDef_eq
     (fn\<lparr>file := f, qual_name_offset := q, short_name_offset := s, short_name_size := n\<rparr>)
     (fn'\<lparr>file := f', qual_name_offset := q', short_name_offset := s', short_name_size := n'\<rparr>)
     = FuncDef_eq fn fn' \<and>
   VarDef_eq
     (v\<lparr>file := f, qual_name_offset := q, short_name_offset := s, short_name_size := n\<rparr>)
     (v'\<lparr>file := f', qual_name_offset := q', short_name_offset := s', short_name_size := n'\<rparr>)
     = VarDef_eq v v'"
proof -
  have "TypeDef_eq t
     (t\<lparr>file := f, qual_name_offset := q, short_name_offset := s, short_name_size := n\<rparr>)"
    by (simp add: TypeDef_eq_def Maybe_eq_refl vector_eq_refl Id_eq_refl Reference_eq_refl)
  moreover have "FuncDef_eq fn
     (fn\<lparr>file := f, qual_name_offset := q, short_name_offset := s, short_name_size := n\<rparr>)"
    by (simp add: FuncDef_eq_def Maybe_eq_refl vector_eq_refl Id_eq_refl Reference_eq_refl)
  moreover have "VarDef_eq v
     (v\<lparr>file := f, qual_name_offset := q, short_name_offset := s, short_name_size := n\<rparr>)"
    by (simp add: VarDef_eq_def Maybe_eq_refl vector_eq_refl Id_eq_refl Reference_eq_refl)
  ultimately show ?thesis
    by (simp only: TypeDef_eq_ignores FuncDef_eq_ignores VarDef_eq_ignores simp_thms)
qed

end
